theory Spec2Isabelle
  imports Complex_Main "HOL-Library.Char_ord" "HOL-Library.List_Lexorder"
begin

section \<open>JavaScript strings\<close>

text \<open>
  A JavaScript string is a sequence of code units. The model uses \<^typ>\<open>string\<close>, whose
  characters are the code units \<open>0 .. 255\<close>; the order on characters and the
  lexicographic order on strings are those of the code units, as in JavaScript.
  Among these code units the white space of \<open>trim\<close>, of the regular expression
  class \<open>\s\<close> and of the numeric-literal grammar is TAB, LF, VT, FF, CR, SPACE and NBSP.
\<close>

definition is_ws :: "char \<Rightarrow> bool" where
  "is_ws c = (c = CHR 0x09 \<or> c = CHR 0x0A \<or> c = CHR 0x0B \<or> c = CHR 0x0C \<or>
              c = CHR 0x0D \<or> c = CHR 0x20 \<or> c = CHR 0xA0)"

definition is_digit :: "char \<Rightarrow> bool" where
  "is_digit c = (CHR ''0'' \<le> c \<and> c \<le> CHR ''9'')"

definition digit_val :: "char \<Rightarrow> nat" where
  "digit_val c = of_char c - 48"

text \<open>\<open>s.trim()\<close>\<close>

definition trim :: "string \<Rightarrow> string" where
  "trim s = rev (dropWhile is_ws (rev (dropWhile is_ws s)))"

text \<open>\<open>s.split(sep)\<close> for a one-character separator: never the empty list.\<close>

fun split_str :: "char \<Rightarrow> string \<Rightarrow> string list" where
  "split_str sep [] = [[]]"
| "split_str sep (c # cs) =
     (if c = sep then [] # split_str sep cs
      else (case split_str sep cs of
              [] \<Rightarrow> [[c]]
            | r # rs \<Rightarrow> (c # r) # rs))"

text \<open>\<open>s.replace(/"/g, "")\<close>\<close>

definition remove_dquotes :: "string \<Rightarrow> string" where
  "remove_dquotes s = filter (\<lambda>c. c \<noteq> CHR 0x22) s"

text \<open>
  \<open>s.replace(/\s+/g, "_")\<close>: every maximal run of white space becomes one underscore.
  The flag says that the previous character belonged to a run already replaced.
\<close>

fun replace_ws_runs :: "bool \<Rightarrow> string \<Rightarrow> string" where
  "replace_ws_runs prev [] = []"
| "replace_ws_runs prev (c # cs) =
     (if is_ws c then (if prev then replace_ws_runs True cs
                       else CHR ''_'' # replace_ws_runs True cs)
      else c # replace_ws_runs False cs)"

text \<open>\<open>s.toLowerCase()\<close> on the code units \<open>0 .. 255\<close>.\<close>

definition lower_char :: "char \<Rightarrow> char" where
  "lower_char c =
     (let n = (of_char c :: nat)
      in if (65 \<le> n \<and> n \<le> 90) \<or> (192 \<le> n \<and> n \<le> 222 \<and> n \<noteq> 215)
         then char_of (n + 32) else c)"

definition toLowerCase :: "string \<Rightarrow> string" where
  "toLowerCase s = map lower_char s"

text \<open>\<open>s.startsWith(p)\<close> and \<open>s.includes(sub)\<close>\<close>

definition startsWith :: "string \<Rightarrow> string \<Rightarrow> bool" where
  "startsWith s p = (take (length p) s = p)"

fun includes_str :: "string \<Rightarrow> string \<Rightarrow> bool" where
  "includes_str [] sub = (sub = [])"
| "includes_str (c # cs) sub = (startsWith (c # cs) sub \<or> includes_str cs sub)"

text \<open>The three regular expressions of the type detection, each anchored at both ends.\<close>

definition all_digits :: "string \<Rightarrow> bool" where
  "all_digits s = list_all is_digit s"

text \<open>\<open>/^\d{4}-\d{2}-\d{2}$/\<close>\<close>

definition match_iso_date :: "string \<Rightarrow> bool" where
  "match_iso_date s =
     (length s = 10 \<and> all_digits (take 4 s) \<and> s ! 4 = CHR ''-'' \<and>
      all_digits (take 2 (drop 5 s)) \<and> s ! 7 = CHR ''-'' \<and> all_digits (drop 8 s))"

text \<open>\<open>/^\d{1,2}\/\d{1,2}\/\d{4}$/\<close>\<close>

definition match_slash_date :: "string \<Rightarrow> bool" where
  "match_slash_date s =
     (case split_str (CHR ''/'') s of
        [m, d, y] \<Rightarrow>
          all_digits m \<and> (length m = 1 \<or> length m = 2) \<and>
          all_digits d \<and> (length d = 1 \<or> length d = 2) \<and>
          all_digits y \<and> length y = 4
      | _ \<Rightarrow> False)"

text \<open>\<open>/^\d+\.\d{2}$/\<close>\<close>

definition match_two_decimals :: "string \<Rightarrow> bool" where
  "match_two_decimals s =
     (case split_str (CHR ''.'') s of
        [a, b] \<Rightarrow> a \<noteq> [] \<and> all_digits a \<and> all_digits b \<and> length b = 2
      | _ \<Rightarrow> False)"


section \<open>JavaScript numbers\<close>

text \<open>
  A number is \<open>NaN\<close>, an infinity, or a finite decimal \<open>Dec m f\<close> of value
  \<open>m / 10 ^ f\<close>. Decimal literals are read exactly: the rounding of IEEE doubles is
  not part of the model, which agrees with JavaScript on literals of at most 15
  significant digits inside the range of doubles. The sign of zero is not kept
  (no operation below observes it).
\<close>

datatype jsnum = NaN | PInf | NInf | Dec int nat

definition num_neg :: "jsnum \<Rightarrow> jsnum" where
  "num_neg x = (case x of NaN \<Rightarrow> NaN | PInf \<Rightarrow> NInf | NInf \<Rightarrow> PInf | Dec m f \<Rightarrow> Dec (- m) f)"

text \<open>\<open>x === y\<close> and \<open>x < y\<close> on numbers; every comparison with \<open>NaN\<close> is false.\<close>

fun num_eq :: "jsnum \<Rightarrow> jsnum \<Rightarrow> bool" where
  "num_eq (Dec m1 f1) (Dec m2 f2) = (m1 * 10 ^ f2 = m2 * 10 ^ f1)"
| "num_eq PInf PInf = True"
| "num_eq NInf NInf = True"
| "num_eq _ _ = False"

fun num_lt :: "jsnum \<Rightarrow> jsnum \<Rightarrow> bool" where
  "num_lt (Dec m1 f1) (Dec m2 f2) = (m1 * 10 ^ f2 < m2 * 10 ^ f1)"
| "num_lt NaN _ = False"
| "num_lt _ NaN = False"
| "num_lt NInf NInf = False"
| "num_lt NInf _ = True"
| "num_lt PInf _ = False"
| "num_lt (Dec m f) PInf = True"
| "num_lt (Dec m f) NInf = False"

definition num_is_zero :: "jsnum \<Rightarrow> bool" where
  "num_is_zero x = (case x of Dec m f \<Rightarrow> m = 0 | _ \<Rightarrow> False)"

subsection \<open>Reading numeric literals\<close>

definition digits_val :: "string \<Rightarrow> nat" where
  "digits_val ds = foldl (\<lambda>acc c. 10 * acc + digit_val c) 0 ds"

text \<open>The shortest \<open>Dec\<close> of the same value: trailing zeros of the fraction are dropped.\<close>

fun dec_norm :: "int \<Rightarrow> nat \<Rightarrow> jsnum" where
  "dec_norm m 0 = Dec m 0"
| "dec_norm m (Suc f) = (if m mod 10 = 0 then dec_norm (m div 10) f else Dec m (Suc f))"

text \<open>The value \<open>m * 10 ^ (x - f)\<close> of a literal with \<open>f\<close> fraction digits and exponent \<open>x\<close>.\<close>

definition dec_scale :: "int \<Rightarrow> nat \<Rightarrow> int \<Rightarrow> jsnum" where
  "dec_scale m f x =
     (if int f \<le> x then Dec (m * 10 ^ nat (x - int f)) 0 else dec_norm m (nat (int f - x)))"

text \<open>\<open>ExponentPart\<close>: \<open>e\<close> or \<open>E\<close>, an optional sign, at least one digit.\<close>

definition parse_exponent :: "string \<Rightarrow> (int \<times> string) option" where
  "parse_exponent s =
     (case s of
        [] \<Rightarrow> None
      | c # r \<Rightarrow>
          if c = CHR ''e'' \<or> c = CHR ''E'' then
            (let (neg, r1) =
               (case r of
                  [] \<Rightarrow> (False, r)
                | g # r' \<Rightarrow> if g = CHR ''-'' then (True, r')
                            else if g = CHR ''+'' then (False, r') else (False, r));
                 ds = takeWhile is_digit r1
             in if ds = [] then None
                else Some (if neg then - int (digits_val ds) else int (digits_val ds),
                           dropWhile is_digit r1))
          else None)"

text \<open>
  The longest prefix that is a \<open>StrUnsignedDecimalLiteral\<close> (\<open>Infinity\<close>,
  \<open>digits . digits? exponent?\<close>, \<open>. digits exponent?\<close>, \<open>digits exponent?\<close>), with its
  value and the rest of the string.
\<close>

definition parse_unsigned_decimal :: "string \<Rightarrow> (jsnum \<times> string) option" where
  "parse_unsigned_decimal s =
     (if startsWith s ''Infinity'' then Some (PInf, drop 8 s)
      else
        let ip = takeWhile is_digit s;
            r0 = dropWhile is_digit s;
            (fp, r1) =
              (case r0 of
                 [] \<Rightarrow> ([], r0)
               | c # r \<Rightarrow> if c = CHR ''.'' then (takeWhile is_digit r, dropWhile is_digit r)
                          else ([], r0))
        in if ip = [] \<and> fp = [] then None
           else
             let (x, r2) = (case parse_exponent r1 of None \<Rightarrow> (0, r1) | Some (x, r) \<Rightarrow> (x, r))
             in Some (dec_scale (int (digits_val (ip @ fp))) (length fp) x, r2))"

text \<open>\<open>StrDecimalLiteral\<close>: an optional sign before the unsigned literal.\<close>

definition parse_str_decimal :: "string \<Rightarrow> (jsnum \<times> string) option" where
  "parse_str_decimal s =
     (case s of
        [] \<Rightarrow> None
      | c # r \<Rightarrow>
          if c = CHR ''-'' then map_option (\<lambda>(v, rest). (num_neg v, rest)) (parse_unsigned_decimal r)
          else if c = CHR ''+'' then parse_unsigned_decimal r
          else parse_unsigned_decimal s)"

text \<open>\<open>parseFloat(s)\<close>: leading white space is skipped, what follows the literal is ignored.\<close>

definition parseFloat :: "string \<Rightarrow> jsnum" where
  "parseFloat s = (case parse_str_decimal (dropWhile is_ws s) of None \<Rightarrow> NaN | Some (v, _) \<Rightarrow> v)"

text \<open>\<open>NonDecimalIntegerLiteral\<close>: \<open>0x\<close>, \<open>0o\<close>, \<open>0b\<close> and at least one digit of the radix.\<close>

definition radix_digit :: "char \<Rightarrow> nat option" where
  "radix_digit c =
     (if is_digit c then Some (digit_val c)
      else if CHR ''a'' \<le> c \<and> c \<le> CHR ''f'' then Some (of_char c - 87)
      else if CHR ''A'' \<le> c \<and> c \<le> CHR ''F'' then Some (of_char c - 55)
      else None)"

fun radix_val :: "nat \<Rightarrow> nat \<Rightarrow> string \<Rightarrow> nat option" where
  "radix_val b acc [] = Some acc"
| "radix_val b acc (c # cs) =
     (case radix_digit c of
        None \<Rightarrow> None
      | Some d \<Rightarrow> if d < b then radix_val b (b * acc + d) cs else None)"

definition parse_non_decimal :: "string \<Rightarrow> jsnum option" where
  "parse_non_decimal s =
     (case s of
        z # p # d # ds \<Rightarrow>
          if z \<noteq> CHR ''0'' then None
          else
            (let b = (if p = CHR ''x'' \<or> p = CHR ''X'' then 16
                      else if p = CHR ''o'' \<or> p = CHR ''O'' then 8
                      else if p = CHR ''b'' \<or> p = CHR ''B'' then 2 else (0::nat))
             in if b = 0 then None
                else map_option (\<lambda>n. Dec (int n) 0) (radix_val b 0 (d # ds)))
      | _ \<Rightarrow> None)"

text \<open>\<open>Number(s)\<close> for a string: the whole trimmed string must be one literal; empty is 0.\<close>

definition StringToNumber :: "string \<Rightarrow> jsnum" where
  "StringToNumber s =
     (let t = trim s
      in if t = [] then Dec 0 0
         else (case parse_non_decimal t of
                 Some v \<Rightarrow> v
               | None \<Rightarrow> (case parse_str_decimal t of
                            Some (v, []) \<Rightarrow> v
                          | _ \<Rightarrow> NaN)))"

subsection \<open>Printing numbers\<close>

fun digits_of :: "nat \<Rightarrow> nat list" where
  "digits_of n = (if n < 10 then [n] else digits_of (n div 10) @ [n mod 10])"

declare digits_of.simps [simp del]

definition digit_char :: "nat \<Rightarrow> char" where
  "digit_char d = char_of (48 + d)"

definition show_nat :: "nat \<Rightarrow> string" where
  "show_nat n = map digit_char (digits_of n)"

text \<open>
  \<open>Number::toString\<close> of a positive \<open>a / 10 ^ f\<close>: with \<open>k\<close> significant digits and
  \<open>n\<close> digits before the decimal point, plain notation when \<open>-6 < n \<le> 21\<close> and
  exponent notation otherwise.
\<close>

definition pos_toString :: "nat \<Rightarrow> nat \<Rightarrow> string" where
  "pos_toString a f =
     (let ds = digits_of a;
          sd = rev (dropWhile (\<lambda>d. d = 0) (rev ds));
          k = int (length sd);
          n = int (length ds) - int f;
          sc = map digit_char sd
      in if k \<le> n \<and> n \<le> 21 then sc @ replicate (nat (n - k)) (CHR ''0'')
         else if 0 < n \<and> n \<le> 21 then take (nat n) sc @ ''.'' @ drop (nat n) sc
         else if - 6 < n \<and> n \<le> 0 then ''0.'' @ replicate (nat (- n)) (CHR ''0'') @ sc
         else
           (let e = n - 1;
                es = (if e < 0 then ''-'' else ''+'') @ show_nat (nat \<bar>e\<bar>)
            in if k = 1 then sc @ ''e'' @ es
               else take 1 sc @ ''.'' @ drop 1 sc @ ''e'' @ es))"

definition num_toString :: "jsnum \<Rightarrow> string" where
  "num_toString x =
     (case x of
        NaN \<Rightarrow> ''NaN''
      | PInf \<Rightarrow> ''Infinity''
      | NInf \<Rightarrow> ''-Infinity''
      | Dec m f \<Rightarrow>
          if m = 0 then ''0''
          else (if m < 0 then ''-'' else '''') @ pos_toString (nat \<bar>m\<bar>) f)"


section \<open>JavaScript values\<close>

datatype jsval = Undefined | Null | Bool bool | Num jsnum | Str string

definition ToString :: "jsval \<Rightarrow> string" where
  "ToString v =
     (case v of
        Undefined \<Rightarrow> ''undefined''
      | Null \<Rightarrow> ''null''
      | Bool b \<Rightarrow> (if b then ''true'' else ''false'')
      | Num x \<Rightarrow> num_toString x
      | Str s \<Rightarrow> s)"

definition ToNumber :: "jsval \<Rightarrow> jsnum" where
  "ToNumber v =
     (case v of
        Undefined \<Rightarrow> NaN
      | Null \<Rightarrow> Dec 0 0
      | Bool b \<Rightarrow> (if b then Dec 1 0 else Dec 0 0)
      | Num x \<Rightarrow> x
      | Str s \<Rightarrow> StringToNumber s)"

text \<open>Truthiness, as tested by \<open>!v\<close>, \<open>v || w\<close> and \<open>v ? a : b\<close>.\<close>

definition truthy :: "jsval \<Rightarrow> bool" where
  "truthy v =
     (case v of
        Undefined \<Rightarrow> False
      | Null \<Rightarrow> False
      | Bool b \<Rightarrow> b
      | Num x \<Rightarrow> x \<noteq> NaN \<and> \<not> num_is_zero x
      | Str s \<Rightarrow> s \<noteq> [])"

text \<open>\<open>a || b\<close>\<close>

definition js_or :: "jsval \<Rightarrow> jsval \<Rightarrow> jsval" where
  "js_or a b = (if truthy a then a else b)"

definition isNaN :: "jsval \<Rightarrow> bool" where
  "isNaN v = (ToNumber v = NaN)"

text \<open>\<open>a === b\<close>\<close>

fun strict_equals :: "jsval \<Rightarrow> jsval \<Rightarrow> bool" where
  "strict_equals Undefined Undefined = True"
| "strict_equals Null Null = True"
| "strict_equals (Bool a) (Bool b) = (a = b)"
| "strict_equals (Num x) (Num y) = num_eq x y"
| "strict_equals (Str s) (Str t) = (s = t)"
| "strict_equals _ _ = False"

text \<open>
  \<open>a > b\<close>: two strings are compared by code units, anything else as numbers.
\<close>

fun js_greater :: "jsval \<Rightarrow> jsval \<Rightarrow> bool" where
  "js_greater (Str s) (Str t) = (t < s)"
| "js_greater a b = num_lt (ToNumber b) (ToNumber a)"

definition is_number :: "jsval \<Rightarrow> bool" where
  "is_number v = (case v of Num _ \<Rightarrow> True | _ \<Rightarrow> False)"



section \<open>Objects, columns and component state\<close>

text \<open>
  A record of the table is a JavaScript object: its properties in creation order, a
  write to an existing property keeping its place. Reading a missing property gives
  \<open>undefined\<close>. (\<open>Object.values\<close> lists integer-like property names first; the code
  only asks whether some value satisfies a test, which does not depend on the order.)
\<close>

type_synonym jsobj = "(string \<times> jsval) list"

definition obj_get :: "jsobj \<Rightarrow> string \<Rightarrow> jsval" where
  "obj_get obj k = (case map_of obj k of None \<Rightarrow> Undefined | Some v \<Rightarrow> v)"

fun obj_set :: "jsobj \<Rightarrow> string \<Rightarrow> jsval \<Rightarrow> jsobj" where
  "obj_set [] k v = [(k, v)]"
| "obj_set ((k', v') # r) k v = (if k' = k then (k, v) # r else (k', v') # obj_set r k v)"

definition Object_values :: "jsobj \<Rightarrow> jsval list" where
  "Object_values obj = map snd obj"

text \<open>The column types \<open>"string"\<close>, \<open>"number"\<close>, \<open>"date"\<close> and \<open>"currency"\<close>.\<close>

datatype column_type = TString | TNumber | TDate | TCurrency

record column =
  key :: string
  label :: string
  sortable :: bool
  filterable :: bool
  type :: column_type

datatype direction = Asc | Desc

text \<open>\<open>sortConfig\<close>: the key is \<open>null\<close> or a string.\<close>

record sort_config =
  sort_key :: "string option"
  direction :: direction

text \<open>The state of the component that the upload handlers and the query read and write.\<close>

record table_state =
  data :: "jsobj list"
  columns :: "column list"
  currentPage :: int
  sortConfig :: sort_config
  globalFilter :: string
  visibleColumns :: jsobj

text \<open>\<open>updateTableData\<close>\<close>

definition updateTableData :: "column list \<Rightarrow> jsobj list \<Rightarrow> table_state \<Rightarrow> table_state" where
  "updateTableData newColumns newData st =
     st\<lparr>columns := newColumns,
        data := newData,
        visibleColumns := foldl (\<lambda>acc col. obj_set acc (key col) (Bool True)) [] newColumns,
        currentPage := 1,
        globalFilter := [],
        sortConfig := \<lparr>sort_key = None, direction = Asc\<rparr>\<rparr>"


section \<open>Loading a file: \<open>handleFileUpload\<close>\<close>

subsection \<open>Type detection of one cell\<close>

text \<open>
  The \<open>if\<close> chain applied to every cell, the same in the CSV and the Excel branch:
  the value stored for the cell, and the type written to the cell's column (no type
  is written when no branch is taken).
\<close>

definition detect_cell :: "string \<Rightarrow> jsval \<times> column_type option" where
  "detect_cell v =
     (if \<not> isNaN (Str v) \<and> \<not> isNaN (Num (parseFloat v)) \<and> v \<noteq> []
      then (Num (parseFloat v), Some TNumber)
      else if match_iso_date v \<or> match_slash_date v
      then (Str v, Some TDate)
      else if startsWith v ''$'' \<or> match_two_decimals v
      then (Num (parseFloat (remove1 (CHR ''$'') v)), Some TCurrency)
      else (Str v, None))"

text \<open>\<open>newColumns[i].type = t\<close>\<close>

definition set_type :: "column list \<Rightarrow> nat \<Rightarrow> column_type \<Rightarrow> column list" where
  "set_type cols i t = cols[i := (cols ! i)\<lparr>type := t\<rparr>]"

definition header_key :: "string \<Rightarrow> string" where
  "header_key header = replace_ws_runs False (toLowerCase header)"

definition new_column :: "string \<Rightarrow> column" where
  "new_column header =
     \<lparr>key = header_key header, label = header, sortable = True, filterable = True,
      type = TString\<rparr>"

text \<open>
  The body of \<open>headers.forEach\<close> for header \<open>i\<close>, given the cell text: it writes the
  row's property and possibly the column's type.
\<close>

definition cell_step :: "string \<Rightarrow> nat \<Rightarrow> string \<Rightarrow> jsobj \<times> column list \<Rightarrow> jsobj \<times> column list" where
  "cell_step header i v st =
     (case st of (row, cols) \<Rightarrow>
        (case detect_cell v of (stored, t) \<Rightarrow>
           (obj_set row (header_key header) stored,
            (case t of None \<Rightarrow> cols | Some ty \<Rightarrow> set_type cols i ty))))"

subsection \<open>Building the records\<close>

definition new_row :: "nat \<Rightarrow> jsobj" where
  "new_row index = [(''id'', Num (Dec (int index + 1) 0))]"

text \<open>
  One pass of \<open>headers.forEach\<close>: the record of the data row with the given index,
  \<open>cell i\<close> being the text of the row's cell under header \<open>i\<close>.
\<close>

definition build_row :: "string list \<Rightarrow> (nat \<Rightarrow> string) \<Rightarrow> nat \<Rightarrow> column list \<Rightarrow> jsobj \<times> column list" where
  "build_row headers cell index cols =
     fold (\<lambda>(i, header). cell_step header i (cell i)) (enumerate 0 headers)
       (new_row index, cols)"

text \<open>
  The \<open>map\<close> over the data rows, the columns being updated while the records are
  built: \<open>index\<close> is the index of the first row.
\<close>

fun build_rows :: "string list \<Rightarrow> (nat \<Rightarrow> string) list \<Rightarrow> nat \<Rightarrow> column list \<Rightarrow> jsobj list \<times> column list" where
  "build_rows headers [] index cols = ([], cols)"
| "build_rows headers (cell # cells) index cols =
     (case build_row headers cell index cols of (row, cols1) \<Rightarrow>
        (case build_rows headers cells (Suc index) cols1 of (rows, cols2) \<Rightarrow>
           (row # rows, cols2)))"

subsection \<open>The CSV branch\<close>

text \<open>\<open>text.split("\n").filter((line) => line.trim() !== "")\<close>\<close>

definition csv_lines :: "string \<Rightarrow> string list" where
  "csv_lines text = filter (\<lambda>line. trim line \<noteq> []) (split_str (CHR 0x0A) text)"

text \<open>\<open>line.split(",").map((value) => value.trim().replace(/"/g, ""))\<close>\<close>

definition csv_fields :: "string \<Rightarrow> string list" where
  "csv_fields line = map (\<lambda>v. remove_dquotes (trim v)) (split_str (CHR '','') line)"

text \<open>\<open>values[i] || ""\<close> on an array of strings\<close>

definition cell_at :: "string list \<Rightarrow> nat \<Rightarrow> string" where
  "cell_at vs i = (if i < length vs then vs ! i else [])"

text \<open>The cells of one line of the text.\<close>

definition csv_cell :: "string \<Rightarrow> nat \<Rightarrow> string" where
  "csv_cell line = cell_at (csv_fields line)"

text \<open>Header fields, the final columns and the records of a text with at least one line.\<close>

definition parse_csv :: "string \<Rightarrow> (string list \<times> column list \<times> jsobj list) option" where
  "parse_csv text =
     (case csv_lines text of
        [] \<Rightarrow> None
      | first # rest \<Rightarrow>
          (let headers = csv_fields first;
               newColumns = map new_column headers
           in (case build_rows headers (map csv_cell rest) 0 newColumns of (newData, cols) \<Rightarrow>
                 Some (headers, cols, newData))))"

datatype upload_outcome = Loaded | EmptyInput | UnreadableWorkbook

text \<open>
  The \<open>onload\<close> callback of the CSV branch: the result shown to the user (the toast
  "Uploaded file is empty" is \<open>EmptyInput\<close>) and the state afterwards.
\<close>

definition handleCsvUpload :: "string \<Rightarrow> table_state \<Rightarrow> upload_outcome \<times> table_state" where
  "handleCsvUpload text st =
     (case parse_csv text of
        None \<Rightarrow> (EmptyInput, st)
      | Some (headers, newColumns, newData) \<Rightarrow> (Loaded, updateTableData newColumns newData st))"

subsection \<open>The Excel branch\<close>

text \<open>
  \<open>XLSX.read\<close> and \<open>sheet_to_json\<close> belong to a library: the model starts from their
  result, the rows of the first sheet as arrays of cell values, or from the failure
  caught by the handler. The random suffix of the placeholder for a blank header is
  a parameter (the suffix drawn for the header at each position).
\<close>

datatype workbook = Unreadable | Sheet "jsval list list"

text \<open>\<open>row[i]\<close> on an array of values\<close>

definition array_get :: "jsval list \<Rightarrow> nat \<Rightarrow> jsval" where
  "array_get row i = (if i < length row then row ! i else Undefined)"

text \<open>\<open>let value = row[i] || ""; value = value.toString().trim()\<close>\<close>

definition excel_cell :: "jsval list \<Rightarrow> nat \<Rightarrow> string" where
  "excel_cell row i = trim (ToString (js_or (array_get row i) (Str [])))"

definition excel_headers :: "(nat \<Rightarrow> string) \<Rightarrow> jsval list \<Rightarrow> string list" where
  "excel_headers suffix hs =
     map (\<lambda>(i, header). if truthy header then trim (ToString header)
                         else ''Column_'' @ suffix i)
       (enumerate 0 hs)"

definition handleExcelUpload :: "(nat \<Rightarrow> string) \<Rightarrow> workbook \<Rightarrow> table_state \<Rightarrow> upload_outcome \<times> table_state" where
  "handleExcelUpload suffix wb st =
     (case wb of
        Unreadable \<Rightarrow> (UnreadableWorkbook, st)
      | Sheet jsonData \<Rightarrow>
          (case jsonData of
             [] \<Rightarrow> (EmptyInput, st)
           | first # rest \<Rightarrow>
               (let headers = excel_headers suffix first;
                    newColumns = map new_column headers
                in (case build_rows headers (map excel_cell rest) 0 newColumns of (newData, cols) \<Rightarrow>
                      (Loaded, updateTableData cols newData st)))))"


section \<open>The query: filter, sort, paginate\<close>

text \<open>The test applied to one value of a record by the global filter.\<close>

definition value_matches :: "string \<Rightarrow> jsval \<Rightarrow> bool" where
  "value_matches flt v =
     (if v = Null \<or> v = Undefined then False
      else includes_str (toLowerCase (ToString v)) (toLowerCase flt))"

definition filteredData :: "jsobj list \<Rightarrow> string \<Rightarrow> jsobj list" where
  "filteredData items flt =
     (if flt = [] then items
      else filter (\<lambda>item. list_ex (value_matches flt) (Object_values item)) items)"

text \<open>The comparison function handed to \<open>sort\<close>.\<close>

definition compare_records :: "string \<Rightarrow> direction \<Rightarrow> jsobj \<Rightarrow> jsobj \<Rightarrow> int" where
  "compare_records k dir a b =
     (let aVal = obj_get a k; bVal = obj_get b k
      in if strict_equals aVal bVal then 0
         else (let result = (if js_greater aVal bVal then 1 else - 1)
               in if dir = Desc then - result else result))"

text \<open>
  \<open>Array.prototype.sort\<close> with a comparison function is a stable sort. For a
  comparison function that is consistent on the elements the language fixes the result
  (the one stable sorted arrangement); otherwise the order is left to the
  implementation. The model is the stable insertion sort: each element is put before
  the first later element that it does not exceed.
\<close>

fun insert_by :: "('a \<Rightarrow> 'a \<Rightarrow> int) \<Rightarrow> 'a \<Rightarrow> 'a list \<Rightarrow> 'a list" where
  "insert_by cmp x [] = [x]"
| "insert_by cmp x (y # ys) = (if cmp x y \<le> 0 then x # y # ys else y # insert_by cmp x ys)"

definition array_sort :: "('a \<Rightarrow> 'a \<Rightarrow> int) \<Rightarrow> 'a list \<Rightarrow> 'a list" where
  "array_sort cmp xs = foldr (insert_by cmp) xs []"

text \<open>\<open>!sortConfig.key\<close> holds for \<open>null\<close> and for the empty string.\<close>

definition sortedData :: "jsobj list \<Rightarrow> sort_config \<Rightarrow> jsobj list" where
  "sortedData filtered cfg =
     (case sort_key cfg of
        None \<Rightarrow> filtered
      | Some k \<Rightarrow> if k = [] then filtered
                  else array_sort (compare_records k (direction cfg)) filtered)"

text \<open>\<open>xs.slice(start, end)\<close> for integers: negative indices count from the end.\<close>

definition array_slice :: "'a list \<Rightarrow> int \<Rightarrow> int \<Rightarrow> 'a list" where
  "array_slice xs start stop =
     (let len = int (length xs);
          k = (if start < 0 then max (len + start) 0 else min start len);
          final = (if stop < 0 then max (len + stop) 0 else min stop len)
      in take (nat (final - k)) (drop (nat k) xs))"

definition paginatedData :: "'a list \<Rightarrow> int \<Rightarrow> int \<Rightarrow> 'a list" where
  "paginatedData xs page itemsPerPage =
     (let startIndex = (page - 1) * itemsPerPage
      in array_slice xs startIndex (startIndex + itemsPerPage))"

text \<open>
  \<open>Math.ceil(sortedData.length / itemsPerPage)\<close> for an integer \<open>itemsPerPage\<close>:
  dividing by zero gives \<open>NaN\<close> or \<open>Infinity\<close>.
\<close>

definition totalPages :: "'a list \<Rightarrow> int \<Rightarrow> jsnum" where
  "totalPages xs itemsPerPage =
     (if itemsPerPage = 0 then (if xs = [] then NaN else PInf)
      else Dec (- ((- int (length xs)) div itemsPerPage)) 0)"

text \<open>The view computed at each rendering from the state and \<open>itemsPerPage\<close>.\<close>

record view =
  rows :: "jsobj list"
  totalMatched :: nat
  pages :: jsnum

definition query :: "table_state \<Rightarrow> int \<Rightarrow> view" where
  "query st itemsPerPage =
     (let xs = sortedData (filteredData (data st) (globalFilter st)) (sortConfig st)
      in \<lparr>rows = paginatedData xs (currentPage st) itemsPerPage,
          totalMatched = length xs,
          pages = totalPages xs itemsPerPage\<rparr>)"

subsection \<open>The same pipeline on a store of arrays\<close>

text \<open>
  Arrays are mutable and shared by reference: \<open>filteredData\<close> returns the very array
  \<open>data\<close> when there is no filter text, \<open>sortedData\<close> returns the filtered array
  itself when there is no sort key, and \<open>sort\<close> works in place. The store maps each
  array reference (an index) to the array's contents; \<open>filter\<close>, the spread
  \<open>[...xs]\<close> and \<open>slice\<close> allocate new arrays.
\<close>

type_synonym store = "jsobj list list"

definition alloc :: "jsobj list \<Rightarrow> store \<Rightarrow> nat \<times> store" where
  "alloc xs h = (length h, h @ [xs])"

definition sort_in_place :: "(jsobj \<Rightarrow> jsobj \<Rightarrow> int) \<Rightarrow> nat \<Rightarrow> store \<Rightarrow> store" where
  "sort_in_place cmp r h = h[r := array_sort cmp (h ! r)]"

definition filteredData_ref :: "nat \<Rightarrow> string \<Rightarrow> store \<Rightarrow> nat \<times> store" where
  "filteredData_ref dataRef flt h =
     (if flt = [] then (dataRef, h)
      else alloc (filter (\<lambda>item. list_ex (value_matches flt) (Object_values item)) (h ! dataRef)) h)"

definition sortedData_ref :: "nat \<Rightarrow> sort_config \<Rightarrow> store \<Rightarrow> nat \<times> store" where
  "sortedData_ref filteredRef cfg h =
     (case sort_key cfg of
        None \<Rightarrow> (filteredRef, h)
      | Some k \<Rightarrow>
          if k = [] then (filteredRef, h)
          else (case alloc (h ! filteredRef) h of (copy, h1) \<Rightarrow>
                  (copy, sort_in_place (compare_records k (direction cfg)) copy h1)))"

definition paginatedData_ref :: "nat \<Rightarrow> int \<Rightarrow> int \<Rightarrow> store \<Rightarrow> nat \<times> store" where
  "paginatedData_ref sortedRef page itemsPerPage h =
     alloc (paginatedData (h ! sortedRef) page itemsPerPage) h"

text \<open>The three steps in sequence: the references of the three results and the final store.\<close>

definition pipeline_ref :: "nat \<Rightarrow> string \<Rightarrow> sort_config \<Rightarrow> int \<Rightarrow> int \<Rightarrow> store \<Rightarrow> (nat \<times> nat \<times> nat) \<times> store" where
  "pipeline_ref dataRef flt cfg page itemsPerPage h =
     (case filteredData_ref dataRef flt h of (f, h1) \<Rightarrow>
        (case sortedData_ref f cfg h1 of (s, h2) \<Rightarrow>
           (case paginatedData_ref s page itemsPerPage h2 of (p, h3) \<Rightarrow>
              ((f, s, p), h3))))"


section \<open>Export: \<open>downloadAsExcel\<close>\<close>

text \<open>\<open>value.replace(/"/g, '""')\<close>\<close>

definition double_dquotes :: "string \<Rightarrow> string" where
  "double_dquotes s = concat (map (\<lambda>c. if c = CHR 0x22 then [CHR 0x22, CHR 0x22] else [c]) s)"

text \<open>\<open>xs.join(sep)\<close> on strings, and on values (\<open>null\<close> and \<open>undefined\<close> print as empty).\<close>

fun join :: "string \<Rightarrow> string list \<Rightarrow> string" where
  "join sep [] = []"
| "join sep [x] = x"
| "join sep (x # y # ys) = x @ sep @ join sep (y # ys)"

definition join_element :: "jsval \<Rightarrow> string" where
  "join_element v = (if v = Undefined \<or> v = Null then [] else ToString v)"

text \<open>The value that the inner \<open>map\<close> returns for one column of one record.\<close>

definition export_value :: "column \<Rightarrow> jsobj \<Rightarrow> jsval" where
  "export_value col item =
     (let v = obj_get item (key col);
          v1 = (if type col = TCurrency
                then (if is_number v then v
                      else js_or (Num (parseFloat (ToString v))) (Num (Dec 0 0)))
                else v)
      in (case v1 of
            Str s \<Rightarrow>
              if includes_str s '','' \<or> includes_str s [CHR 0x22]
              then Str ([CHR 0x22] @ double_dquotes s @ [CHR 0x22])
              else v1
          | _ \<Rightarrow> v1))"

definition export_row :: "column list \<Rightarrow> jsobj \<Rightarrow> string" where
  "export_row visibleColumnsArray item =
     join '','' (map (\<lambda>col. join_element (export_value col item)) visibleColumnsArray)"

definition csvContent :: "table_state \<Rightarrow> string" where
  "csvContent st =
     (let visibleColumnsArray = filter (\<lambda>col. truthy (obj_get (visibleColumns st) (key col))) (columns st);
          headerLine = join '','' (map label visibleColumnsArray);
          xs = sortedData (filteredData (data st) (globalFilter st)) (sortConfig st)
      in join [CHR 0x0A] (headerLine # map (export_row visibleColumnsArray) xs))"


section \<open>Notions used in the statements\<close>



text \<open>The state of a component created without data and without columns.\<close>

definition initial_state :: table_state where
  "initial_state =
     \<lparr>data = [], columns = [], currentPage = 1,
      sortConfig = \<lparr>sort_key = None, direction = Asc\<rparr>,
      globalFilter = [], visibleColumns = []\<rparr>"







text \<open>A table of three records, without columns, filter or sort.\<close>

definition three_records :: table_state where
  "three_records =
     initial_state\<lparr>data := [[(''id'', Num (Dec 1 0))], [(''id'', Num (Dec 2 0))],
                             [(''id'', Num (Dec 3 0))]]\<rparr>"



section \<open>The scenario of the two-line table\<close>




section \<open>Empty input\<close>

lemma is_ws_newline: "is_ws (CHR 0x0A)"
  by (simp add: is_ws_def)

lemma dropWhile_all_iff: "(\<forall>c\<in>set (dropWhile P s). P c) \<longleftrightarrow> (\<forall>c\<in>set s. P c)"
proof
  assume a: "\<forall>c\<in>set (dropWhile P s). P c"
  have "dropWhile P s = []"
  proof (rule ccontr)
    assume ne: "dropWhile P s \<noteq> []"
    then have "\<not> P (hd (dropWhile P s))" by (rule hd_dropWhile)
    moreover from ne have "hd (dropWhile P s) \<in> set (dropWhile P s)" by simp
    ultimately show False using a by blast
  qed
  then show "\<forall>c\<in>set s. P c" by (simp add: dropWhile_eq_Nil_conv)
next
  assume "\<forall>c\<in>set s. P c"
  then show "\<forall>c\<in>set (dropWhile P s). P c" by (meson set_dropWhileD)
qed

lemma trim_Nil_iff: "trim s = [] \<longleftrightarrow> (\<forall>c\<in>set s. is_ws c)"
proof -
  have "trim s = [] \<longleftrightarrow> (\<forall>c\<in>set (dropWhile is_ws s). is_ws c)"
    by (simp add: trim_def dropWhile_eq_Nil_conv)
  then show ?thesis by (simp add: dropWhile_all_iff)
qed

lemma split_str_not_Nil: "split_str sep s \<noteq> []"
  by (induction s) (auto split: list.splits)

lemma split_str_chars: "\<Union> (set ` set (split_str sep s)) = set s - {sep}"
proof (induction s)
  case Nil
  show ?case by simp
next
  case (Cons c cs)
  show ?case
  proof (cases "c = sep")
    case True
    with Cons show ?thesis by auto
  next
    case False
    obtain r rs where rs: "split_str sep cs = r # rs"
      using split_str_not_Nil [of sep cs] by (cases "split_str sep cs") auto
    with Cons False show ?thesis by auto
  qed
qed

lemma csv_lines_Nil_iff: "csv_lines src = [] \<longleftrightarrow> (\<forall>c\<in>set src. is_ws c)"
proof -
  have "csv_lines src = [] \<longleftrightarrow> (\<forall>c\<in>\<Union> (set ` set (split_str (CHR 0x0A) src)). is_ws c)"
    by (auto simp: csv_lines_def filter_empty_conv trim_Nil_iff)
  also have "\<dots> \<longleftrightarrow> (\<forall>c\<in>set src. is_ws c)"
    unfolding split_str_chars using is_ws_newline by auto
  finally show ?thesis .
qed

lemma parse_csv_None_iff: "parse_csv src = None \<longleftrightarrow> csv_lines src = []"
  by (auto simp: parse_csv_def Let_def split: list.splits prod.splits)

text \<open>
  Claim C7: loading a CSV text ends with the notice of an empty file exactly when no
  line is left after dropping the lines that are empty once trimmed, which is exactly
  when the text consists of white space only; and then the state of the component
  (records, columns, page, sort, filter text, visible columns) is the state before.
\<close>

theorem empty_input_keeps_state:
  "(fst (handleCsvUpload src st) = EmptyInput \<longleftrightarrow>
      filter (\<lambda>line. trim line \<noteq> []) (split_str (CHR 0x0A) src) = []) \<and>
   (fst (handleCsvUpload src st) = EmptyInput \<longleftrightarrow> (\<forall>c\<in>set src. is_ws c)) \<and>
   (fst (handleCsvUpload src st) = EmptyInput \<longrightarrow> snd (handleCsvUpload src st) = st)"
proof -
  have a: "fst (handleCsvUpload src st) = EmptyInput \<longleftrightarrow> csv_lines src = []"
    using parse_csv_None_iff [of src]
    by (auto simp: handleCsvUpload_def split: option.splits)
  have b: "fst (handleCsvUpload src st) = EmptyInput \<longrightarrow> snd (handleCsvUpload src st) = st"
    by (auto simp: handleCsvUpload_def split: option.splits)
  from a b show ?thesis
    using csv_lines_Nil_iff [of src] by (simp add: csv_lines_def)
qed

theorem empty_input_keeps_state_witness:
  "fst (handleCsvUpload '' \<newline>\<newline>'' initial_state) = EmptyInput \<and>
   snd (handleCsvUpload '' \<newline>\<newline>'' initial_state) = initial_state \<and>
   fst (handleCsvUpload ''A\<newline>1'' initial_state) \<noteq> EmptyInput"
proof -
  have ws: "\<forall>c\<in>set '' \<newline>\<newline>''. is_ws c" by (simp add: is_ws_def)
  have nws: "\<not> (\<forall>c\<in>set ''A\<newline>1''. is_ws c)" by (simp add: is_ws_def)
  from ws nws show ?thesis
    using empty_input_keeps_state [of "'' \<newline>\<newline>''" initial_state]
      empty_input_keeps_state [of "''A\<newline>1''" initial_state]
    by blast
qed


section \<open>Pagination\<close>


lemma length_insert_by: "length (insert_by cmp x ys) = Suc (length ys)"
  by (induction ys) auto


lemma length_array_sort: "length (array_sort cmp xs) = length xs"
  by (induction xs) (auto simp: array_sort_def length_insert_by)

lemma length_sortedData: "length (sortedData xs cfg) = length xs"
  by (simp add: sortedData_def length_array_sort split: option.splits)

lemma array_slice_nonneg:
  assumes "0 \<le> a" and "0 \<le> b"
  shows "array_slice xs a (a + b) = take (nat b) (drop (nat a) xs)"
proof (cases "a < int (length xs)")
  case True
  with assms have "nat (min (a + b) (int (length xs)) - a) = min (nat b) (length xs - nat a)"
    by (auto simp: min_def)
  with assms True show ?thesis
    by (simp add: array_slice_def Let_def min_def)
next
  case False
  with assms show ?thesis
    by (simp add: array_slice_def Let_def min_def)
qed

lemma paginatedData_take_drop:
  assumes "1 \<le> page" and "0 \<le> itemsPerPage"
  shows "paginatedData xs page itemsPerPage =
           take (nat itemsPerPage) (drop (nat ((page - 1) * itemsPerPage)) xs)"
  using assms by (simp add: paginatedData_def Let_def array_slice_nonneg)

lemma length_page:
  assumes "0 \<le> itemsPerPage"
  shows "length (paginatedData xs (int (Suc p)) itemsPerPage) =
           min (nat itemsPerPage) (length xs - p * nat itemsPerPage)"
proof -
  have "nat ((int (Suc p) - 1) * itemsPerPage) = p * nat itemsPerPage"
    using assms by (simp add: nat_mult_distrib)
  with assms show ?thesis
    by (simp add: paginatedData_take_drop min.commute)
qed

lemma sum_pages_upto:
  assumes "0 \<le> itemsPerPage"
  shows "(\<Sum>p<j. length (paginatedData xs (int (Suc p)) itemsPerPage)) =
           min (j * nat itemsPerPage) (length xs)"
proof (induction j)
  case 0
  show ?case by simp
next
  case (Suc j)
  have "length (paginatedData xs (int (Suc j)) itemsPerPage) =
          min (nat itemsPerPage) (length xs - j * nat itemsPerPage)"
    using assms by (rule length_page)
  with Suc have "(\<Sum>p<Suc j. length (paginatedData xs (int (Suc p)) itemsPerPage)) =
      min (j * nat itemsPerPage) (length xs) +
      min (nat itemsPerPage) (length xs - j * nat itemsPerPage)"
    by (simp only: sum.lessThan_Suc)
  also have "\<dots> = min (Suc j * nat itemsPerPage) (length xs)"
    by (simp add: min_def) arith
  finally show ?case .
qed

lemma ceiling_pages:
  assumes "1 \<le> itemsPerPage"
  shows "- ((- int n) div itemsPerPage) = \<lceil>real n / real_of_int itemsPerPage\<rceil>"
proof -
  have "\<lceil>real_of_int (int n) / real_of_int itemsPerPage\<rceil> = - ((- int n) div itemsPerPage)"
    by (rule ceiling_divide_eq_div)
  then show ?thesis by simp
qed

lemma totalPages_ceiling:
  assumes "1 \<le> itemsPerPage"
  shows "totalPages xs itemsPerPage = Dec \<lceil>real (length xs) / real_of_int itemsPerPage\<rceil> 0"
  using assms by (simp add: totalPages_def ceiling_pages)

lemma pages_cover:
  assumes "1 \<le> itemsPerPage"
  shows "int n \<le> \<lceil>real n / real_of_int itemsPerPage\<rceil> * itemsPerPage"
    and "(\<lceil>real n / real_of_int itemsPerPage\<rceil> - 1) * itemsPerPage < int n"
    and "0 \<le> \<lceil>real n / real_of_int itemsPerPage\<rceil>"
proof -
  let ?c = "\<lceil>real n / real_of_int itemsPerPage\<rceil>"
  from assms have pos: "0 < real_of_int itemsPerPage" by simp
  have "real n / real_of_int itemsPerPage \<le> real_of_int ?c" by (rule le_of_int_ceiling)
  with pos have "real n \<le> real_of_int ?c * real_of_int itemsPerPage"
    by (simp only: pos_divide_le_eq)
  then have "real_of_int (int n) \<le> real_of_int (?c * itemsPerPage)" by simp
  then show "int n \<le> ?c * itemsPerPage" by (simp only: of_int_le_iff)
  have "real_of_int ?c - 1 < real n / real_of_int itemsPerPage" by linarith
  with pos have "(real_of_int ?c - 1) * real_of_int itemsPerPage < real n"
    by (simp only: pos_less_divide_eq)
  then have "real_of_int ((?c - 1) * itemsPerPage) < real_of_int (int n)" by simp
  then show "(?c - 1) * itemsPerPage < int n" by (simp only: of_int_less_iff)
  from pos have "0 \<le> real n / real_of_int itemsPerPage" by simp
  then show "0 \<le> ?c" by linarith
qed


lemma sum_from_one: "(\<Sum>p = 1..j. f p) = (\<Sum>p<j. f (Suc p))"
proof (induction j)
  case 0
  show ?case by simp
next
  case (Suc j)
  then show ?case by simp
qed

lemma page_beyond_last:
  assumes "1 \<le> itemsPerPage" and "\<lceil>real (length xs) / real_of_int itemsPerPage\<rceil> < page"
  shows "paginatedData xs page itemsPerPage = []"
proof -
  let ?t = "\<lceil>real (length xs) / real_of_int itemsPerPage\<rceil>"
  from assms pages_cover(3) [OF assms(1), of "length xs"] have p1: "1 \<le> page" by linarith
  from assms have "?t * itemsPerPage \<le> (page - 1) * itemsPerPage"
    by (intro mult_right_mono) auto
  with pages_cover(1) [OF assms(1), of "length xs"]
  have "int (length xs) \<le> (page - 1) * itemsPerPage" by linarith
  then have "length xs \<le> nat ((page - 1) * itemsPerPage)" by linarith
  with p1 assms(1) show ?thesis by (simp add: paginatedData_take_drop)
qed

lemma page_before_last_full:
  assumes "1 \<le> itemsPerPage" and "1 \<le> page"
    and "page < \<lceil>real (length xs) / real_of_int itemsPerPage\<rceil>"
  shows "length (paginatedData xs page itemsPerPage) = nat itemsPerPage"
proof -
  let ?t = "\<lceil>real (length xs) / real_of_int itemsPerPage\<rceil>"
  from assms have "page * itemsPerPage \<le> (?t - 1) * itemsPerPage"
    by (intro mult_right_mono) auto
  with pages_cover(2) [OF assms(1), of "length xs"]
  have "page * itemsPerPage < int (length xs)" by linarith
  then have "(page - 1) * itemsPerPage + itemsPerPage < int (length xs)"
    by (simp add: algebra_simps)
  moreover from assms have "0 \<le> (page - 1) * itemsPerPage" by simp
  ultimately have "nat itemsPerPage \<le> length xs - nat ((page - 1) * itemsPerPage)"
    using assms(1) by linarith
  with assms show ?thesis by (simp add: paginatedData_take_drop min_def)
qed

lemma pages_sum:
  assumes "1 \<le> itemsPerPage"
  shows "(\<Sum>p = 1..nat \<lceil>real (length xs) / real_of_int itemsPerPage\<rceil>.
            length (paginatedData xs (int p) itemsPerPage)) = length xs"
proof -
  let ?t = "\<lceil>real (length xs) / real_of_int itemsPerPage\<rceil>"
  from assms have ipp: "0 \<le> itemsPerPage" by simp
  have "int (length xs) \<le> ?t * itemsPerPage" using assms by (rule pages_cover(1))
  also have "\<dots> = int (nat ?t * nat itemsPerPage)"
    using pages_cover(3) [OF assms, of "length xs"] ipp by (simp add: nat_mult_distrib)
  finally have "length xs \<le> nat ?t * nat itemsPerPage" by (simp only: of_nat_le_iff)
  then show ?thesis
    by (simp only: sum_from_one sum_pages_upto [OF ipp] min_absorb2)
qed

lemma query_page:
  "rows (query (st\<lparr>currentPage := page\<rparr>) itemsPerPage) =
     paginatedData (sortedData (filteredData (data st) (globalFilter st)) (sortConfig st))
       page itemsPerPage"
  by (simp add: query_def Let_def)

lemma query_totals:
  "totalMatched (query st itemsPerPage) = length (filteredData (data st) (globalFilter st))"
  "pages (query st itemsPerPage) =
     totalPages (sortedData (filteredData (data st) (globalFilter st)) (sortConfig st)) itemsPerPage"
  by (simp_all add: query_def Let_def length_sortedData)

text \<open>
  Claim C6: for a page size of at least one, the rows of page \<open>page \<ge> 1\<close> are the
  slice \<open>[(page - 1) * pageSize, page * pageSize)\<close> of the filtered and sorted sequence,
  empty for a page beyond the last; the number of matches is the length of the
  filtered sequence; the number of pages is the ceiling of matches over page size,
  0 for no match; the rows of the pages 1 to the last add up to the matches; and every
  page before the last has exactly the page size.
\<close>

theorem pagination:
  fixes st :: table_state and itemsPerPage :: int
  defines "xs \<equiv> sortedData (filteredData (data st) (globalFilter st)) (sortConfig st)"
  defines "t \<equiv> \<lceil>real (length xs) / real_of_int itemsPerPage\<rceil>"
  assumes "1 \<le> itemsPerPage"
  shows "(\<forall>page. 1 \<le> page \<longrightarrow>
            rows (query (st\<lparr>currentPage := page\<rparr>) itemsPerPage) =
              take (nat itemsPerPage) (drop (nat ((page - 1) * itemsPerPage)) xs)) \<and>
         (\<forall>page. t < page \<longrightarrow> rows (query (st\<lparr>currentPage := page\<rparr>) itemsPerPage) = []) \<and>
         totalMatched (query st itemsPerPage) = length (filteredData (data st) (globalFilter st)) \<and>
         pages (query st itemsPerPage) = Dec t 0 \<and>
         (totalMatched (query st itemsPerPage) = 0 \<longrightarrow> pages (query st itemsPerPage) = Dec 0 0) \<and>
         (\<Sum>p = 1..nat t. length (rows (query (st\<lparr>currentPage := int p\<rparr>) itemsPerPage))) =
            totalMatched (query st itemsPerPage) \<and>
         (\<forall>page. 1 \<le> page \<and> page < t \<longrightarrow>
            length (rows (query (st\<lparr>currentPage := page\<rparr>) itemsPerPage)) = nat itemsPerPage)"
proof -
  have n: "totalMatched (query st itemsPerPage) = length xs"
    by (simp add: query_totals xs_def length_sortedData)
  have pg: "pages (query st itemsPerPage) = Dec t 0"
    using assms(3) by (simp add: query_totals totalPages_ceiling xs_def t_def)
  have a: "\<forall>page. 1 \<le> page \<longrightarrow>
            rows (query (st\<lparr>currentPage := page\<rparr>) itemsPerPage) =
              take (nat itemsPerPage) (drop (nat ((page - 1) * itemsPerPage)) xs)"
    using assms(3) by (simp add: query_page paginatedData_take_drop xs_def)
  have b: "\<forall>page. t < page \<longrightarrow> rows (query (st\<lparr>currentPage := page\<rparr>) itemsPerPage) = []"
    using assms(3) by (simp add: query_page page_beyond_last xs_def t_def)
  have c: "totalMatched (query st itemsPerPage) = 0 \<longrightarrow> pages (query st itemsPerPage) = Dec 0 0"
    using pg n by (simp add: t_def)
  have d: "(\<Sum>p = 1..nat t. length (rows (query (st\<lparr>currentPage := int p\<rparr>) itemsPerPage))) =
            totalMatched (query st itemsPerPage)"
    unfolding n query_page t_def xs_def using assms(3) by (rule pages_sum)
  have e: "\<forall>page. 1 \<le> page \<and> page < t \<longrightarrow>
            length (rows (query (st\<lparr>currentPage := page\<rparr>) itemsPerPage)) = nat itemsPerPage"
    using assms(3) by (simp add: query_page page_before_last_full xs_def t_def)
  from a b c d e pg show ?thesis
    by (simp add: query_totals)
qed

theorem pagination_witness:
  "(1::int) \<le> 2 \<and>
   rows (query (three_records\<lparr>currentPage := 2\<rparr>) 2) = [[(''id'', Num (Dec 3 0))]] \<and>
   rows (query (three_records\<lparr>currentPage := 3\<rparr>) 2) = [] \<and>
   totalMatched (query three_records 2) = 3 \<and>
   pages (query three_records 2) = Dec 2 0 \<and>
   (\<Sum>p = 1..2. length (rows (query (three_records\<lparr>currentPage := int p\<rparr>) 2))) = 3 \<and>
   length (rows (query (three_records\<lparr>currentPage := 1\<rparr>) 2)) = 2"
proof -
  have xs: "sortedData [[(''id'', Num (Dec 1 0))], [(''id'', Num (Dec 2 0))], [(''id'', Num (Dec 3 0))]]
              (sortConfig three_records) =
            [[(''id'', Num (Dec 1 0))], [(''id'', Num (Dec 2 0))], [(''id'', Num (Dec 3 0))]]"
    by code_simp
  have fl: "filteredData (data three_records) (globalFilter three_records) =
            [[(''id'', Num (Dec 1 0))], [(''id'', Num (Dec 2 0))], [(''id'', Num (Dec 3 0))]]"
    by code_simp
  have t: "\<lceil>real (length [[(''id'', Num (Dec 1 0))], [(''id'', Num (Dec 2 0))],
             [(''id'', Num (Dec 3 0))]]) / real_of_int 2\<rceil> = 2"
    by simp
  note p = pagination [where st = three_records and itemsPerPage = 2, unfolded fl xs t]
  have le: "(1::int) \<le> 2" by simp
  from p [OF le] have a: "rows (query (three_records\<lparr>currentPage := 2\<rparr>) 2) = [[(''id'', Num (Dec 3 0))]]"
    by simp
  from p [OF le] have b: "rows (query (three_records\<lparr>currentPage := 3\<rparr>) 2) = []"
    by simp
  from p [OF le] have c: "totalMatched (query three_records 2) = 3"
    by simp
  from p [OF le] have d: "pages (query three_records 2) = Dec 2 0"
    by simp
  from p [OF le] have "(\<Sum>p = 1..nat 2. length (rows (query (three_records\<lparr>currentPage := int p\<rparr>) 2))) =
      totalMatched (query three_records 2)"
    by blast
  with c have e: "(\<Sum>p = 1..2. length (rows (query (three_records\<lparr>currentPage := int p\<rparr>) 2))) = 3"
    by simp
  from p [OF le] have f: "length (rows (query (three_records\<lparr>currentPage := 1\<rparr>) 2)) = 2"
    by simp
  from le a b c d e f show ?thesis by simp
qed


section \<open>The query does not modify the table\<close>

lemma filteredData_ref_correct:
  assumes "dataRef < length h" and "filteredData_ref dataRef flt h = (f, h1)"
  shows "\<exists>ys. h1 = h @ ys" and "f < length h1"
    and "h1 ! f = filteredData (h ! dataRef) flt"
  using assms
  by (auto simp: filteredData_ref_def filteredData_def alloc_def split: if_splits)

lemma sortedData_ref_correct:
  assumes "f < length h1" and "sortedData_ref f cfg h1 = (s, h2)"
  shows "\<exists>ys. h2 = h1 @ ys" and "s < length h2"
    and "h2 ! s = sortedData (h1 ! f) cfg"
  using assms
  by (auto simp: sortedData_ref_def sortedData_def alloc_def sort_in_place_def
           split: option.splits if_splits)

lemma paginatedData_ref_correct:
  assumes "s < length h2" and "paginatedData_ref s page itemsPerPage h2 = (p, h3)"
  shows "\<exists>ys. h3 = h2 @ ys"
    and "h3 ! p = paginatedData (h2 ! s) page itemsPerPage"
  using assms by (auto simp: paginatedData_ref_def alloc_def)

text \<open>
  Claim C10: on a store of arrays, computing the filtered, sorted and paginated
  arrays leaves every array that existed before as it was, the array of the table's
  records in particular: same records, same order. The three results hold what
  the pure functions compute; sorting works on a new copy of the filtered array.
\<close>

theorem pipeline_leaves_table_unchanged:
  assumes "dataRef < length h"
    and "pipeline_ref dataRef flt cfg page itemsPerPage h = ((f, s, p), h')"
  shows "h' ! dataRef = h ! dataRef \<and> take (length h) h' = h \<and>
         h' ! f = filteredData (h ! dataRef) flt \<and>
         h' ! s = sortedData (filteredData (h ! dataRef) flt) cfg \<and>
         h' ! p = paginatedData (sortedData (filteredData (h ! dataRef) flt) cfg) page itemsPerPage"
proof -
  obtain h1 h2 where
    1: "filteredData_ref dataRef flt h = (f, h1)" and
    2: "sortedData_ref f cfg h1 = (s, h2)" and
    3: "paginatedData_ref s page itemsPerPage h2 = (p, h')"
    using assms(2) by (auto simp: pipeline_ref_def split: prod.splits)
  note F = filteredData_ref_correct [OF assms(1) 1]
  note S = sortedData_ref_correct [OF F(2) 2]
  note P = paginatedData_ref_correct [OF S(2) 3]
  from F(1) obtain y1 where y1: "h1 = h @ y1" ..
  from S(1) obtain y2 where y2: "h2 = h1 @ y2" ..
  from P(1) obtain y3 where y3: "h' = h2 @ y3" ..
  have a: "take (length h) h' = h" by (simp add: y1 y2 y3)
  have b: "h' ! dataRef = h ! dataRef" using assms(1) by (simp add: y1 y2 y3 nth_append)
  have c: "h' ! f = h1 ! f" using F(2) by (simp add: y2 y3 nth_append)
  have d: "h' ! s = h2 ! s" using S(2) by (simp add: y3 nth_append)
  from a b show ?thesis
    by (simp only: c d F(3) S(3) P(2) simp_thms)
qed


theorem pipeline_leaves_table_unchanged_witness:
  "pipeline_ref 0 [] \<lparr>sort_key = Some ''id'', direction = Desc\<rparr> 1 2 [data three_records] =
     ((0, 1, 2),
      [data three_records,
       [[(''id'', Num (Dec 3 0))], [(''id'', Num (Dec 2 0))], [(''id'', Num (Dec 1 0))]],
       [[(''id'', Num (Dec 3 0))], [(''id'', Num (Dec 2 0))]]]) \<and>
   [data three_records,
    [[(''id'', Num (Dec 3 0))], [(''id'', Num (Dec 2 0))], [(''id'', Num (Dec 1 0))]],
    [[(''id'', Num (Dec 3 0))], [(''id'', Num (Dec 2 0))]]] ! 0 =
     [[(''id'', Num (Dec 1 0))], [(''id'', Num (Dec 2 0))], [(''id'', Num (Dec 3 0))]]"
proof -
  have run: "pipeline_ref 0 [] \<lparr>sort_key = Some ''id'', direction = Desc\<rparr> 1 2 [data three_records] =
     ((0, 1, 2),
      [data three_records,
       [[(''id'', Num (Dec 3 0))], [(''id'', Num (Dec 2 0))], [(''id'', Num (Dec 1 0))]],
       [[(''id'', Num (Dec 3 0))], [(''id'', Num (Dec 2 0))]]])"
    by code_simp
  have len: "0 < length [data three_records]" by simp
  have dt: "[data three_records] ! 0 =
      [[(''id'', Num (Dec 1 0))], [(''id'', Num (Dec 2 0))], [(''id'', Num (Dec 3 0))]]"
    by (simp add: three_records_def)
  from pipeline_leaves_table_unchanged [OF len run] run dt show ?thesis
    by (simp only: simp_thms)
qed


section \<open>The global filter\<close>







section \<open>The types of the columns\<close>

























section \<open>The stored cells\<close>












section \<open>Sorting\<close>

subsection \<open>The insertion sort, for a comparison function that is a total preorder on a set\<close>









subsection \<open>The comparison function of the sort\<close>

































section \<open>The cells of a spreadsheet\<close>

text \<open>
  Claim C8: in the Excel branch every cell value is turned into its string form
  before the detection, so that a cell holding the number 0 is treated as the text
  \<open>0\<close>. The code does not do this for 0: \<open>row[i] || ""\<close> replaces every falsy value,
  the number 0 included, by the empty string before \<open>toString\<close> is called. For the
  sheet with the header \<open>Qty\<close> and the one cell 0, the record holds the empty string
  and the column keeps the type \<open>string\<close>, whereas the detection on the string form
  \<open>0\<close> gives the number 0 and the type \<open>number\<close>, which is also what the CSV branch
  stores for the text \<open>0\<close>.
\<close>

theorem excel_zero_cell_stored_empty:
  "handleExcelUpload (\<lambda>i. ''x'') (Sheet [[Str ''Qty''], [Num (Dec 0 0)]]) initial_state =
     (Loaded,
      updateTableData
        [\<lparr>key = ''qty'', label = ''Qty'', sortable = True, filterable = True, type = TString\<rparr>]
        [[(''id'', Num (Dec 1 0)), (''qty'', Str [])]]
        initial_state) \<and>
   excel_cell [Num (Dec 0 0)] 0 = [] \<and>
   ToString (Num (Dec 0 0)) = ''0'' \<and>
   detect_cell (ToString (Num (Dec 0 0))) = (Num (Dec 0 0), Some TNumber) \<and>
   parse_csv ''Qty\<newline>0'' =
     Some ([''Qty''],
           [\<lparr>key = ''qty'', label = ''Qty'', sortable = True, filterable = True, type = TNumber\<rparr>],
           [[(''id'', Num (Dec 1 0)), (''qty'', Num (Dec 0 0))]])"
  by code_simp


section \<open>The export\<close>

lemma includes_str_char: "includes_str s [c] \<longleftrightarrow> c \<in> set s"
  by (induction s) (auto simp: startsWith_def)

text \<open>The quoting of the export, for a column that is not a currency column.\<close>

lemma export_value_quoting:
  assumes "type col \<noteq> TCurrency" and "obj_get item (key col) = Str s"
  shows "export_value col item =
           (if CHR '','' \<in> set s \<or> CHR 0x22 \<in> set s
            then Str ([CHR 0x22] @ double_dquotes s @ [CHR 0x22]) else Str s)"
  using assms by (simp add: export_value_def Let_def includes_str_char)

text \<open>The value written for a currency column.\<close>

lemma export_value_currency:
  assumes "type col = TCurrency"
  shows "obj_get item (key col) = Num x \<Longrightarrow> export_value col item = Num x"
    and "\<not> is_number (obj_get item (key col)) \<Longrightarrow>
         export_value col item =
           (if parseFloat (ToString (obj_get item (key col))) = NaN \<or>
               num_is_zero (parseFloat (ToString (obj_get item (key col))))
            then Num (Dec 0 0)
            else Num (parseFloat (ToString (obj_get item (key col)))))"
  using assms by (simp_all add: export_value_def Let_def is_number_def js_or_def truthy_def)

text \<open>
  Claim C9: in the export a value with a comma or a double quote is quoted, and a
  value of a currency column is written as plain numeric text when there is a numeric
  amount and as 0 otherwise. The code misses one case of the second part: a currency
  cell such as \<open>$abc\<close> is stored as the number \<open>NaN\<close>, the test
  \<open>typeof value === "number"\<close> accepts it, the fallback \<open>parseFloat(value) || 0\<close> is
  not reached, and the export writes \<open>NaN\<close>. A cell of the same column stored as a
  string without a numeric amount is written as 0.
\<close>

theorem export_currency_nan:
  "csvContent (snd (handleCsvUpload ''Price\<newline>$abc\<newline>$5\<newline>n/a'' initial_state)) =
     ''Price\<newline>NaN\<newline>5\<newline>0'' \<and>
   data (snd (handleCsvUpload ''Price\<newline>$abc\<newline>$5\<newline>n/a'' initial_state)) =
     [[(''id'', Num (Dec 1 0)), (''price'', Num NaN)],
      [(''id'', Num (Dec 2 0)), (''price'', Num (Dec 5 0))],
      [(''id'', Num (Dec 3 0)), (''price'', Str ''n/a'')]] \<and>
   map type (columns (snd (handleCsvUpload ''Price\<newline>$abc\<newline>$5\<newline>n/a'' initial_state))) =
     [TCurrency]"
  by code_simp


section \<open>The patterns of the currency branch\<close>

lemma split_str_single:
  "split_str sep v = [b] \<Longrightarrow> v = b \<and> sep \<notin> set b"
proof (induction v arbitrary: b)
  case Nil
  then show ?case by simp
next
  case (Cons c cs)
  show ?case
  proof (cases "c = sep")
    case True
    with Cons.prems show ?thesis using split_str_not_Nil [of sep cs] by simp
  next
    case False
    obtain r rs where rs: "split_str sep cs = r # rs"
      using split_str_not_Nil [of sep cs] by (cases "split_str sep cs") auto
    with Cons.prems False have "b = c # r" and "rs = []" by simp_all
    with Cons.IH [of r] rs False show ?thesis by simp
  qed
qed

lemma split_str_pair:
  "split_str sep v = [a, b] \<Longrightarrow> v = a @ sep # b \<and> sep \<notin> set a \<and> sep \<notin> set b"
proof (induction v arbitrary: a)
  case Nil
  then show ?case by simp
next
  case (Cons c cs)
  show ?case
  proof (cases "c = sep")
    case True
    with Cons.prems have "a = []" and "split_str sep cs = [b]" by simp_all
    with True split_str_single [of sep cs b] show ?thesis by simp
  next
    case False
    obtain r rs where rs: "split_str sep cs = r # rs"
      using split_str_not_Nil [of sep cs] by (cases "split_str sep cs") auto
    with Cons.prems False have "a = c # r" and "rs = [b]" by simp_all
    with Cons.IH [of r] rs False show ?thesis by simp
  qed
qed

lemma is_digit_not_ws: "is_digit c \<Longrightarrow> \<not> is_ws c"
  by (auto simp: is_digit_def is_ws_def)

lemma trim_no_ws_ends:
  assumes "v \<noteq> []" and "\<not> is_ws (hd v)" and "\<not> is_ws (last v)"
  shows "trim v = v"
proof -
  from assms have "dropWhile is_ws v = v" by (cases v) auto
  moreover from assms have "dropWhile is_ws (rev v) = rev v"
    by (cases "rev v") (auto simp: last_rev [symmetric] hd_rev)
  ultimately show ?thesis by (simp add: trim_def)
qed

lemma dec_norm_not_NaN: "dec_norm m f \<noteq> NaN"
  by (induction f arbitrary: m) auto

lemma dec_scale_not_NaN: "dec_scale m f x \<noteq> NaN"
  by (simp add: dec_scale_def dec_norm_not_NaN)

text \<open>A string of digits, a point and digits is a decimal literal.\<close>

lemma parse_digits_point_digits:
  assumes "a \<noteq> []" and "all_digits a" and "all_digits b"
  shows "parse_str_decimal (a @ CHR ''.'' # b) =
           Some (dec_scale (int (digits_val (a @ b))) (length b) 0, [])"
proof -
  from assms(1) obtain c a' where a: "a = c # a'" by (cases a) auto
  with assms(2) have c: "is_digit c" by (simp add: all_digits_def)
  then have c1: "c \<noteq> CHR ''-''" "c \<noteq> CHR ''+''" "c \<noteq> CHR ''I''"
    by (auto simp: is_digit_def)
  have nd: "\<not> is_digit (CHR ''.'')" by (simp add: is_digit_def)
  from assms(2) have ta: "takeWhile is_digit (a @ CHR ''.'' # b) = a"
    and da: "dropWhile is_digit (a @ CHR ''.'' # b) = CHR ''.'' # b"
    using nd by (simp_all add: all_digits_def list_all_iff takeWhile_append2 dropWhile_append2 takeWhile_tail)
  from assms(3) have tb: "takeWhile is_digit b = b" and db: "dropWhile is_digit b = []"
    by (simp_all add: all_digits_def list_all_iff)
  have inf: "\<not> startsWith (a @ CHR ''.'' # b) ''Infinity''"
    using c1(3) by (simp add: startsWith_def a)
  from assms(1) have "parse_unsigned_decimal (a @ CHR ''.'' # b) =
      Some (dec_scale (int (digits_val (a @ b))) (length b) 0, [])"
    unfolding parse_unsigned_decimal_def
    by (simp add: inf ta da tb db parse_exponent_def Let_def)
  with c1 show ?thesis by (simp add: parse_str_decimal_def a)
qed

lemma parse_non_decimal_digits:
  assumes "a \<noteq> []" and "all_digits a" and "all_digits b"
  shows "parse_non_decimal (a @ CHR ''.'' # b) = None"
proof -
  from assms(1) obtain c a' where a: "a = c # a'" by (cases a) auto
  show ?thesis
  proof (cases a')
    case Nil
    then show ?thesis by (cases b) (simp_all add: parse_non_decimal_def a)
  next
    case (Cons p a'')
    with assms(2) a have "is_digit p" by (simp add: all_digits_def)
    then have "p \<noteq> CHR ''x''" "p \<noteq> CHR ''X''" "p \<noteq> CHR ''o''" "p \<noteq> CHR ''O''"
      "p \<noteq> CHR ''b''" "p \<noteq> CHR ''B''"
      by (auto simp: is_digit_def)
    then show ?thesis
      by (cases "a'' @ CHR ''.'' # b") (simp_all add: parse_non_decimal_def a Cons Let_def)
  qed
qed

text \<open>
  The second pattern of the currency branch is never the one that decides: a value it
  matches is a decimal number, for which the first branch is taken.
\<close>

lemma two_decimals_detected_as_number:
  assumes "match_two_decimals v"
  shows "detect_cell v = (Num (parseFloat v), Some TNumber)"
proof -
  from assms obtain a b where ab: "split_str (CHR ''.'') v = [a, b]"
    and a: "a \<noteq> []" "all_digits a" and b: "all_digits b" "length b = 2"
    by (auto simp: match_two_decimals_def split: list.splits)
  from ab have v: "v = a @ CHR ''.'' # b" using split_str_pair by blast
  from a obtain c a' where ac: "a = c # a'" by (cases a) auto
  with a(2) have hd: "is_digit (hd v)" by (simp add: v all_digits_def)
  from b obtain d e where be: "b = [d, e]"
    by (cases b; cases "tl b") auto
  with b(1) have lst: "is_digit (last v)" by (simp add: v all_digits_def)
  have ne: "v \<noteq> []" by (simp add: v)
  have tr: "trim v = v"
    using ne hd lst by (intro trim_no_ws_ends) (simp_all add: is_digit_not_ws)
  have p: "parse_str_decimal v = Some (dec_scale (int (digits_val (a @ b))) (length b) 0, [])"
    unfolding v using a b(1) by (rule parse_digits_point_digits)
  have n: "parse_non_decimal v = None"
    unfolding v using a b(1) by (rule parse_non_decimal_digits)
  have "StringToNumber v \<noteq> NaN"
    by (simp add: StringToNumber_def Let_def tr ne n p dec_scale_not_NaN)
  moreover have "dropWhile is_ws v = v"
    using hd ne by (cases v) (auto simp: is_digit_not_ws)
  then have "parseFloat v \<noteq> NaN"
    by (simp add: parseFloat_def p dec_scale_not_NaN)
  ultimately show ?thesis
    using ne by (simp add: detect_cell_def isNaN_def ToNumber_def)
qed

end
